theory Spec2Isabelle
  imports Complex_Main
begin

section \<open>JavaScript values used by the payment-intent handler\<close>

text \<open>
  The handler of \<^verbatim>\<open>apps/viewer/pages/api/integrations/stripe/createPaymentIntent.ts\<close>
  computes with JavaScript numbers and strings. Numbers are IEEE-754 binary64 values: a
  finite one is represented by the rational it denotes, and every arithmetic result is
  rounded to the nearest binary64 value (ties to even) by \<open>round_double\<close>. The two
  zeros are identified: \<open>isNaN\<close>, multiplication and division by \<open>100\<close>,
  \<open>Math.round\<close> and the conversion to a string do not tell them apart.
  Strings are byte strings holding the UTF-8 encoding of the JavaScript string.
\<close>

datatype jsnum = NaN | PosInfinity | NegInfinity | Finite rat

subsection \<open>Rounding a rational to binary64\<close>

text \<open>The number of binary digits of a positive integer.\<close>

function bitlen :: "int \<Rightarrow> nat" where
  "bitlen n = (if n \<le> 0 then 0 else Suc (bitlen (n div 2)))"
  by pat_completeness auto
termination
  by (relation "measure nat") auto

declare bitlen.simps [simp del]

definition pow2 :: "int \<Rightarrow> rat" where
  "pow2 e = (if 0 \<le> e then 2 ^ nat e else 1 / 2 ^ nat (- e))"

text \<open>\<open>ilog2 a\<close> is the integer \<open>e\<close> with \<open>2^e \<le> a < 2^(e+1)\<close>, for \<open>a > 0\<close>.\<close>

definition ilog2 :: "rat \<Rightarrow> int" where
  "ilog2 a =
     (if 1 \<le> a then int (bitlen \<lfloor>a\<rfloor>) - 1
      else - int (bitlen (\<lceil>1 / a\<rceil> - 1)))"

definition round_half_even :: "rat \<Rightarrow> int" where
  "round_half_even q =
     (if q - of_int \<lfloor>q\<rfloor> < 1 / 2 then \<lfloor>q\<rfloor>
      else if 1 / 2 < q - of_int \<lfloor>q\<rfloor> then \<lfloor>q\<rfloor> + 1
      else if even \<lfloor>q\<rfloor> then \<lfloor>q\<rfloor> else \<lfloor>q\<rfloor> + 1)"

text \<open>
  The distance between neighbouring binary64 values at magnitude \<open>a > 0\<close>: 53
  significant bits, and the fixed spacing \<open>2^-1074\<close> of the subnormal range.
\<close>

definition double_ulp :: "rat \<Rightarrow> rat" where
  "double_ulp a = pow2 (max (ilog2 a) (- 1022) - 52)"

definition of_magnitude :: "bool \<Rightarrow> rat \<Rightarrow> jsnum" where
  "of_magnitude neg r =
     (if pow2 1024 \<le> r then (if neg then NegInfinity else PosInfinity)
      else Finite (if neg then - r else r))"

definition round_double :: "rat \<Rightarrow> jsnum" where
  "round_double x =
     (if x = 0 then Finite 0
      else of_magnitude (x < 0)
             (of_int (round_half_even (\<bar>x\<bar> / double_ulp \<bar>x\<bar>)) * double_ulp \<bar>x\<bar>))"

subsection \<open>The operators \<open>*\<close> and \<open>/\<close>, \<open>Math.round\<close>, \<open>isNaN\<close>\<close>

fun js_neg :: "jsnum \<Rightarrow> jsnum" where
  "js_neg NaN = NaN"
| "js_neg PosInfinity = NegInfinity"
| "js_neg NegInfinity = PosInfinity"
| "js_neg (Finite x) = Finite (- x)"

fun js_mul :: "jsnum \<Rightarrow> jsnum \<Rightarrow> jsnum" where
  "js_mul NaN b = NaN"
| "js_mul a NaN = NaN"
| "js_mul (Finite x) (Finite y) = round_double (x * y)"
| "js_mul (Finite x) b = (if x = 0 then NaN else if x < 0 then js_neg b else b)"
| "js_mul a (Finite y) = (if y = 0 then NaN else if y < 0 then js_neg a else a)"
| "js_mul PosInfinity b = b"
| "js_mul NegInfinity b = js_neg b"

text \<open>A zero divisor is taken as \<open>+0\<close>.\<close>

fun js_div :: "jsnum \<Rightarrow> jsnum \<Rightarrow> jsnum" where
  "js_div NaN b = NaN"
| "js_div a NaN = NaN"
| "js_div (Finite x) (Finite y) =
     (if y = 0 then (if x = 0 then NaN else if x < 0 then NegInfinity else PosInfinity)
      else round_double (x / y))"
| "js_div (Finite x) b = Finite 0"
| "js_div a (Finite y) = (if y < 0 then js_neg a else a)"
| "js_div a b = NaN"

text \<open>\<open>Math.round\<close>: the nearest integer, a tie going towards \<open>+\<infinity>\<close>.\<close>

fun Math_round :: "jsnum \<Rightarrow> jsnum" where
  "Math_round (Finite x) = Finite (of_int \<lfloor>x + 1 / 2\<rfloor>)"
| "Math_round n = n"

definition isNaN :: "jsnum \<Rightarrow> bool" where
  "isNaN n = (n = NaN)"

subsection \<open>\<open>Number(string)\<close>\<close>

text \<open>
  The white space and line terminators that \<open>StringToNumber\<close> strips, in UTF-8:
  TAB, LF, VT, FF, CR, SP, U+00A0, U+1680, U+2000 to U+200A, U+2028, U+2029, U+202F,
  U+205F, U+3000 and U+FEFF.
\<close>

definition js_whitespace :: "string list" where
  "js_whitespace =
     [[CHR 0x09], [CHR 0x0A], [CHR 0x0B], [CHR 0x0C], [CHR 0x0D], [CHR 0x20],
      [CHR 0xC2, CHR 0xA0], [CHR 0xE1, CHR 0x9A, CHR 0x80],
      [CHR 0xE2, CHR 0x80, CHR 0x80], [CHR 0xE2, CHR 0x80, CHR 0x81],
      [CHR 0xE2, CHR 0x80, CHR 0x82], [CHR 0xE2, CHR 0x80, CHR 0x83],
      [CHR 0xE2, CHR 0x80, CHR 0x84], [CHR 0xE2, CHR 0x80, CHR 0x85],
      [CHR 0xE2, CHR 0x80, CHR 0x86], [CHR 0xE2, CHR 0x80, CHR 0x87],
      [CHR 0xE2, CHR 0x80, CHR 0x88], [CHR 0xE2, CHR 0x80, CHR 0x89],
      [CHR 0xE2, CHR 0x80, CHR 0x8A], [CHR 0xE2, CHR 0x80, CHR 0xA8],
      [CHR 0xE2, CHR 0x80, CHR 0xA9], [CHR 0xE2, CHR 0x80, CHR 0xAF],
      [CHR 0xE2, CHR 0x81, CHR 0x9F], [CHR 0xE3, CHR 0x80, CHR 0x80],
      [CHR 0xEF, CHR 0xBB, CHR 0xBF]]"

text \<open>Drops leading members of \<open>ws\<close>; the first argument bounds the number of steps.\<close>

fun strip_leading :: "nat \<Rightarrow> string list \<Rightarrow> string \<Rightarrow> string" where
  "strip_leading 0 ws s = s"
| "strip_leading (Suc n) ws s =
     (case find (\<lambda>w. take (length w) s = w) ws of
        None \<Rightarrow> s
      | Some w \<Rightarrow> strip_leading n ws (drop (length w) s))"

definition trim_leading :: "string \<Rightarrow> string" where
  "trim_leading s = strip_leading (length s) js_whitespace s"

definition trim_trailing :: "string \<Rightarrow> string" where
  "trim_trailing s = rev (strip_leading (length s) (map rev js_whitespace) (rev s))"

definition trim :: "string \<Rightarrow> string" where
  "trim s = trim_trailing (trim_leading s)"

fun index_of :: "'a \<Rightarrow> 'a list \<Rightarrow> nat option" where
  "index_of x [] = None"
| "index_of x (y # ys) = (if x = y then Some 0 else map_option Suc (index_of x ys))"

definition digit_in_base :: "nat \<Rightarrow> char \<Rightarrow> nat option" where
  "digit_in_base b c =
     (case index_of c ''0123456789abcdef'' of
        Some v \<Rightarrow> (if v < b then Some v else None)
      | None \<Rightarrow>
          (case index_of c ''ABCDEF'' of
             Some v \<Rightarrow> (if v + 10 < b then Some (v + 10) else None)
           | None \<Rightarrow> None))"

definition is_digit :: "char \<Rightarrow> bool" where
  "is_digit c = (digit_in_base 10 c \<noteq> None)"

fun digits_value :: "nat \<Rightarrow> string \<Rightarrow> int \<Rightarrow> int option" where
  "digits_value b [] acc = Some acc"
| "digits_value b (c # cs) acc =
     (case digit_in_base b c of
        None \<Rightarrow> None
      | Some v \<Rightarrow> digits_value b cs (acc * int b + int v))"

text \<open>A non-empty run of digits of base \<open>b\<close>, as a number.\<close>

definition parse_digits :: "nat \<Rightarrow> string \<Rightarrow> int option" where
  "parse_digits b s = (if s = [] then None else digits_value b s 0)"

text \<open>A possibly empty run of decimal digits, as a number.\<close>

definition decimal_run :: "string \<Rightarrow> int" where
  "decimal_run s = (case digits_value 10 s 0 of Some n \<Rightarrow> n | None \<Rightarrow> 0)"

definition pow10 :: "int \<Rightarrow> rat" where
  "pow10 e = (if 0 \<le> e then 10 ^ nat e else 1 / 10 ^ nat (- e))"

text \<open>\<open>ExponentPart\<close>, optional, up to the end of the literal.\<close>

definition parse_exponent :: "string \<Rightarrow> int option" where
  "parse_exponent s =
     (case s of
        [] \<Rightarrow> Some 0
      | c # t \<Rightarrow>
          if c = CHR ''e'' \<or> c = CHR ''E'' then
            (case t of
               [] \<Rightarrow> None
             | d # u \<Rightarrow>
                 if d = CHR ''+'' then parse_digits 10 u
                 else if d = CHR ''-'' then map_option uminus (parse_digits 10 u)
                 else parse_digits 10 t)
          else None)"

definition scale_by_exponent :: "rat \<Rightarrow> string \<Rightarrow> rat option" where
  "scale_by_exponent m s = map_option (\<lambda>e. m * pow10 e) (parse_exponent s)"

text \<open>
  The mathematical value of a \<open>StrUnsignedDecimalLiteral\<close> other than
  \<open>Infinity\<close>: digits, an optional fraction, an optional exponent, with a digit
  before or after the point.
\<close>

definition parse_fraction :: "string \<Rightarrow> string \<Rightarrow> rat option" where
  "parse_fraction ip r =
     (if ip = [] \<and> takeWhile is_digit r = [] then None
      else scale_by_exponent
             (of_int (decimal_run ip)
                + of_int (decimal_run (takeWhile is_digit r))
                    / 10 ^ length (takeWhile is_digit r))
             (dropWhile is_digit r))"

definition parse_after_digits :: "string \<Rightarrow> string \<Rightarrow> rat option" where
  "parse_after_digits ip r =
     (case r of
        [] \<Rightarrow> (if ip = [] then None else Some (of_int (decimal_run ip)))
      | c # r' \<Rightarrow>
          if c = CHR ''.'' then parse_fraction ip r'
          else if ip = [] then None
          else scale_by_exponent (of_int (decimal_run ip)) r)"

definition parse_unsigned_decimal :: "string \<Rightarrow> rat option" where
  "parse_unsigned_decimal s = parse_after_digits (takeWhile is_digit s) (dropWhile is_digit s)"

definition unsigned_decimal_number :: "string \<Rightarrow> jsnum" where
  "unsigned_decimal_number s =
     (if s = ''Infinity'' then PosInfinity
      else case parse_unsigned_decimal s of None \<Rightarrow> NaN | Some m \<Rightarrow> round_double m)"

definition decimal_number :: "string \<Rightarrow> jsnum" where
  "decimal_number s =
     (case s of
        [] \<Rightarrow> NaN
      | c # t \<Rightarrow>
          if c = CHR ''+'' then unsigned_decimal_number t
          else if c = CHR ''-'' then js_neg (unsigned_decimal_number t)
          else unsigned_decimal_number s)"

text \<open>\<open>0x\<close>, \<open>0o\<close> and \<open>0b\<close> literals; they take no sign.\<close>

definition non_decimal_integer :: "string \<Rightarrow> int option" where
  "non_decimal_integer s =
     (case s of
        c # x # t \<Rightarrow>
          if c \<noteq> CHR ''0'' then None
          else if x = CHR ''x'' \<or> x = CHR ''X'' then parse_digits 16 t
          else if x = CHR ''o'' \<or> x = CHR ''O'' then parse_digits 8 t
          else if x = CHR ''b'' \<or> x = CHR ''B'' then parse_digits 2 t
          else None
      | _ \<Rightarrow> None)"

definition string_to_number :: "string \<Rightarrow> jsnum" where
  "string_to_number t =
     (if t = [] then Finite 0
      else case non_decimal_integer t of
             Some n \<Rightarrow> round_double (of_int n)
           | None \<Rightarrow> decimal_number t)"

definition Number :: "string \<Rightarrow> jsnum" where
  "Number s = string_to_number (trim s)"

subsection \<open>\<open>Number::toString\<close>\<close>

text \<open>The number of decimal digits of a positive integer.\<close>

function declen :: "int \<Rightarrow> nat" where
  "declen n = (if n \<le> 0 then 0 else Suc (declen (n div 10)))"
  by pat_completeness auto
termination
  by (relation "measure nat") auto

declare declen.simps [simp del]

text \<open>\<open>ilog10 a\<close> is the integer \<open>e\<close> with \<open>10^e \<le> a < 10^(e+1)\<close>, for \<open>a > 0\<close>.\<close>

definition ilog10 :: "rat \<Rightarrow> int" where
  "ilog10 a =
     (if 1 \<le> a then int (declen \<lfloor>a\<rfloor>) - 1
      else - int (declen (\<lceil>1 / a\<rceil> - 1)))"

text \<open>The weight of the last of \<open>k\<close> significant decimal digits of \<open>x > 0\<close>.\<close>

definition digit_unit :: "rat \<Rightarrow> nat \<Rightarrow> rat" where
  "digit_unit x k = pow10 (ilog10 x - int k + 1)"

definition round_trips :: "rat \<Rightarrow> rat \<Rightarrow> bool" where
  "round_trips x v = (round_double v = Finite x)"

text \<open>
  Among \<open>lo\<close> and \<open>lo + 1\<close>, in units of \<open>u\<close>, the one that reads back as
  \<open>x\<close>; when both do, the one nearer to \<open>x\<close>, and the even one on a tie.
\<close>

definition choose_digits :: "rat \<Rightarrow> rat \<Rightarrow> int \<Rightarrow> int option" where
  "choose_digits x u lo =
     (if round_trips x (of_int lo * u) then
        (if round_trips x (of_int (lo + 1) * u)
            \<and> (of_int (lo + 1) * u - x < x - of_int lo * u
                 \<or> (of_int (lo + 1) * u - x = x - of_int lo * u \<and> odd lo))
         then Some (lo + 1) else Some lo)
      else if round_trips x (of_int (lo + 1) * u) then Some (lo + 1)
      else None)"

definition pick_digits :: "rat \<Rightarrow> nat \<Rightarrow> int option" where
  "pick_digits x k = choose_digits x (digit_unit x k) \<lfloor>x / digit_unit x k\<rfloor>"

text \<open>
  The shortest decimal significand that reads back as \<open>x\<close>, with its number of
  digits; the search starts at \<open>k\<close> digits and makes at most \<open>n\<close> attempts
  (17 digits always suffice for a binary64 value).
\<close>

fun shortest_digits :: "nat \<Rightarrow> nat \<Rightarrow> rat \<Rightarrow> int \<times> nat" where
  "shortest_digits 0 k x = (\<lfloor>x / digit_unit x k\<rfloor>, k)"
| "shortest_digits (Suc n) k x =
     (case pick_digits x k of
        Some s \<Rightarrow> (s, k)
      | None \<Rightarrow> shortest_digits n (Suc k) x)"

definition digit_char :: "int \<Rightarrow> char" where
  "digit_char d = ''0123456789'' ! nat d"

function dec_string :: "int \<Rightarrow> string" where
  "dec_string n = (if n < 10 then [digit_char n] else dec_string (n div 10) @ [digit_char (n mod 10)])"
  by pat_completeness auto
termination
  by (relation "measure nat") auto

declare dec_string.simps [simp del]

text \<open>
  The layout of \<open>Number::toString\<close> for the digits \<open>ds\<close> of the significand and
  the decimal exponent \<open>n\<close> (the value is \<open>0.ds \<times> 10^n\<close>).
\<close>

definition format_number :: "string \<Rightarrow> int \<Rightarrow> string" where
  "format_number ds n =
     (if int (length ds) \<le> n \<and> n \<le> 21 then ds @ replicate (nat (n - int (length ds))) (CHR ''0'')
      else if 0 < n \<and> n \<le> 21 then take (nat n) ds @ ''.'' @ drop (nat n) ds
      else if - 6 < n \<and> n \<le> 0 then ''0.'' @ replicate (nat (- n)) (CHR ''0'') @ ds
      else take 1 ds @ (if length ds = 1 then [] else ''.'' @ drop 1 ds)
             @ ''e'' @ (if n - 1 < 0 then ''-'' else ''+'') @ dec_string \<bar>n - 1\<bar>)"

definition format_shortest :: "rat \<Rightarrow> int \<times> nat \<Rightarrow> string" where
  "format_shortest x sk =
     (if fst sk = 10 ^ snd sk then format_number ''1'' (ilog10 x + 2)
      else format_number (dec_string (fst sk)) (ilog10 x + 1))"

definition positive_to_string :: "rat \<Rightarrow> string" where
  "positive_to_string x = format_shortest x (shortest_digits 17 1 x)"

fun number_to_string :: "jsnum \<Rightarrow> string" where
  "number_to_string NaN = ''NaN''"
| "number_to_string PosInfinity = ''Infinity''"
| "number_to_string NegInfinity = ''-Infinity''"
| "number_to_string (Finite x) =
     (if x = 0 then ''0''
      else if x < 0 then ''-'' @ positive_to_string (- x)
      else positive_to_string x)"

subsection \<open>Values, property access and template literals\<close>

text \<open>
  The values a thrown error and a response body are made of. An object is the list of
  its own properties.
\<close>

datatype jsval =
    JUndefined
  | JNull
  | JBool bool
  | JNum jsnum
  | JStr string
  | JObj "(string \<times> jsval) list"

text \<open>The value thrown when a property of \<open>undefined\<close> or \<open>null\<close> is read, or
  when \<open>in\<close> is applied to a value that is not an object.\<close>

definition TypeError :: jsval where
  "TypeError = JObj [(''name'', JStr ''TypeError'')]"

text \<open>\<open>key in v\<close>\<close>

fun has_property :: "string \<Rightarrow> jsval \<Rightarrow> jsval + bool" where
  "has_property key (JObj props) = Inr (key \<in> set (map fst props))"
| "has_property key v = Inl TypeError"

text \<open>
  \<open>v.key\<close>: the own property of an object, \<open>undefined\<close> when the object has
  none of that name; the handler reads no property that a primitive value has. Reading a
  property of \<open>undefined\<close> or \<open>null\<close> throws.
\<close>

fun property :: "jsval \<Rightarrow> string \<Rightarrow> jsval" where
  "property (JObj props) key = (case map_of props key of None \<Rightarrow> JUndefined | Some v \<Rightarrow> v)"
| "property v key = JUndefined"

definition get_property :: "jsval \<Rightarrow> string \<Rightarrow> jsval + jsval" where
  "get_property v key =
     (if v = JUndefined \<or> v = JNull then Inl TypeError else Inr (property v key))"

text \<open>The conversion to a string that a template literal applies.\<close>

fun to_string :: "jsval \<Rightarrow> string" where
  "to_string JUndefined = ''undefined''"
| "to_string JNull = ''null''"
| "to_string (JBool b) = (if b then ''true'' else ''false'')"
| "to_string (JNum n) = number_to_string n"
| "to_string (JStr s) = s"
| "to_string (JObj props) = ''[object Object]''"

text \<open>The truth value of an optional string: absent and empty are false.\<close>

fun truthy :: "string option \<Rightarrow> bool" where
  "truthy None = False"
| "truthy (Some s) = (s \<noteq> [])"

fun optional_string :: "string option \<Rightarrow> jsval" where
  "optional_string None = JUndefined"
| "optional_string (Some s) = JStr s"

section \<open>The handler\<close>

subsection \<open>Data\<close>

text \<open>
  Modelled from the spec: the types \<open>PaymentInputOptions\<close> and \<open>Variable\<close> of the
  package \<open>models\<close> are not part of the sources. The spec's request is
  \<open>{inputOptions, isPreview, variables}\<close>, with a credential id, an amount expression,
  a currency code and an optional receipt-email expression. The fields below are the ones
  the handler reads, under the names it reads them by: \<open>inputOptions.credentialsId\<close>,
  which it tests for being absent or empty, \<open>inputOptions.amount\<close>,
  \<open>inputOptions.currency\<close> and \<open>inputOptions.additionalInformation?.email\<close>. The
  request is taken after \<open>cors\<close> has run and the body has been parsed. A variable is
  opaque to the handler, which only hands the list to \<open>parseVariables\<close>.
\<close>

typedecl Variable

record AdditionalInformation =
  email :: "string option"

record PaymentInputOptions =
  credentialsId :: "string option"
  amount :: "string option"
  currency :: string
  additionalInformation :: "AdditionalInformation option"

record request =
  "method" :: string
  inputOptions :: PaymentInputOptions
  isPreview :: bool
  variables :: "Variable list"

text \<open>
  Modelled from the spec: the type \<open>StripeCredentialsData\<close> of the package
  \<open>models\<close> and the record type of the store are not part of the sources. The spec's
  credential record is an encrypted blob with its initialization vector, and its
  credential set has two optional entries, \<open>test\<close> and \<open>live\<close>, each
  \<open>{secretKey, publicKey}\<close>; a key may be missing from an entry. The handler reads
  \<open>test\<close> through \<open>?.\<close> and \<open>live\<close> without a guard.
\<close>

record Credentials =
  data :: string
  iv :: string

record StripeKeys =
  secretKey :: "string option"
  publicKey :: "string option"

record StripeCredentialsData =
  live :: "StripeKeys option"
  test :: "StripeKeys option"

text \<open>The argument and the result of \<open>stripe.paymentIntents.create\<close>.\<close>

record PaymentIntentParams =
  amount :: jsnum
  currency :: string
  receipt_email :: "string option"
  automatic_payment_methods_enabled :: bool

record PaymentIntent =
  client_secret :: "string option"

text \<open>
  The collaborators, which the handler imports and which are taken as parameters: the
  credential store (\<open>prisma.credentials.findUnique\<close>), \<open>decrypt\<close>, which returns
  the credential set or throws, \<open>parseVariables\<close>, which returns a string, and the
  gateway call \<open>paymentIntents.create\<close> of a client built with
  \<open>new Stripe(key, ...)\<close>, which returns a payment intent or throws. Building the
  client sends nothing and does not fail.
\<close>

record world =
  findUnique :: "string \<Rightarrow> Credentials option"
  decrypt :: "string \<Rightarrow> string \<Rightarrow> jsval + StripeCredentialsData"
  parseVariables :: "Variable list \<Rightarrow> string option \<Rightarrow> string"
  paymentIntents_create :: "string option \<Rightarrow> PaymentIntentParams \<Rightarrow> jsval + PaymentIntent"

text \<open>
  A response is one of the helpers \<open>forbidden(res)\<close>, \<open>badRequest(res)\<close>,
  \<open>methodNotAllowed(res)\<close> of \<open>utils\<close>, or \<open>res.status(code).send(body)\<close>,
  recorded with the code and the body that the handler passes; \<open>res.send(body)\<close> alone
  goes out with the status 200.
\<close>

datatype response = forbidden | badRequest | methodNotAllowed | Sent jsval jsval

text \<open>
  Modelled from the spec: the helpers of \<open>utils\<close> are not part of the sources. The
  spec gives HTTP 403 for missing or unresolvable credentials and HTTP 400 for an amount
  that is not a number; \<open>methodNotAllowed\<close> is given the status of its name.
\<close>

fun http_status :: "response \<Rightarrow> jsval" where
  "http_status forbidden = JNum (Finite 403)"
| "http_status badRequest = JNum (Finite 400)"
| "http_status methodNotAllowed = JNum (Finite 405)"
| "http_status (Sent code body) = code"

type_synonym gateway_call = "string option \<times> PaymentIntentParams"

subsection \<open>\<open>currencySymbols\<close>\<close>

text \<open>The own properties of the object literal, the symbols in UTF-8.\<close>

definition currencySymbols :: "(string \<times> string) list" where
  "currencySymbols =
     [(''USD'', ''$''),
      (''EUR'', [CHR 0xE2, CHR 0x82, CHR 0xAC]),
      (''CRC'', [CHR 0xE2, CHR 0x82, CHR 0xA1]),
      (''GBP'', [CHR 0xC2, CHR 0xA3]),
      (''ILS'', [CHR 0xE2, CHR 0x82, CHR 0xAA]),
      (''INR'', [CHR 0xE2, CHR 0x82, CHR 0xB9]),
      (''JPY'', [CHR 0xC2, CHR 0xA5]),
      (''KRW'', [CHR 0xE2, CHR 0x82, CHR 0xA9]),
      (''NGN'', [CHR 0xE2, CHR 0x82, CHR 0xA6]),
      (''PHP'', [CHR 0xE2, CHR 0x82, CHR 0xB1]),
      (''PLN'', [CHR ''z'', CHR 0xC5, CHR 0x82]),
      (''PYG'', [CHR 0xE2, CHR 0x82, CHR 0xB2]),
      (''THB'', [CHR 0xE0, CHR 0xB8, CHR 0xBF]),
      (''UAH'', [CHR 0xE2, CHR 0x82, CHR 0xB4]),
      (''VND'', [CHR 0xE2, CHR 0x82, CHR 0xAB])]"

text \<open>
  \<open>currencySymbols\<close> is a plain object, so an index that is not an own property is
  looked up in \<open>Object.prototype\<close>: its methods, \<open>constructor\<close>, which is the
  function \<open>Object\<close>, and the accessor \<open>__proto__\<close>, which yields the prototype
  itself. A native function is given by its name.
\<close>

datatype inherited = NativeFunction string | PrototypeObject

definition Object_prototype :: "(string \<times> inherited) list" where
  "Object_prototype =
     [(''constructor'', NativeFunction ''Object''),
      (''__defineGetter__'', NativeFunction ''__defineGetter__''),
      (''__defineSetter__'', NativeFunction ''__defineSetter__''),
      (''hasOwnProperty'', NativeFunction ''hasOwnProperty''),
      (''__lookupGetter__'', NativeFunction ''__lookupGetter__''),
      (''__lookupSetter__'', NativeFunction ''__lookupSetter__''),
      (''isPrototypeOf'', NativeFunction ''isPrototypeOf''),
      (''propertyIsEnumerable'', NativeFunction ''propertyIsEnumerable''),
      (''toString'', NativeFunction ''toString''),
      (''valueOf'', NativeFunction ''valueOf''),
      (''__proto__'', PrototypeObject),
      (''toLocaleString'', NativeFunction ''toLocaleString'')]"

text \<open>What a template literal makes of an inherited member, as V8 prints it.\<close>

fun inherited_to_string :: "inherited \<Rightarrow> string" where
  "inherited_to_string (NativeFunction name) = ''function '' @ name @ ''() { [native code] }''"
| "inherited_to_string PrototypeObject = ''[object Object]''"

subsection \<open>\<open>getStripeInfo\<close>\<close>

definition getStripeInfo :: "world \<Rightarrow> string \<Rightarrow> jsval + StripeCredentialsData option" where
  "getStripeInfo w cid =
     (case findUnique w cid of
        None \<Rightarrow> Inr None
      | Some credentials \<Rightarrow>
          (case decrypt w (data credentials) (iv credentials) of
             Inl e \<Rightarrow> Inl e
           | Inr d \<Rightarrow> Inr (Some d)))"

subsection \<open>\<open>handler\<close>\<close>

text \<open>
  \<open>stripeKeys.live.secretKey\<close> and \<open>stripeKeys.live.publicKey\<close>: reading a
  property of an entry that is absent throws.
\<close>

definition read_live :: "StripeCredentialsData \<Rightarrow> (StripeKeys \<Rightarrow> string option) \<Rightarrow> jsval + string option" where
  "read_live stripeKeys field =
     (case live stripeKeys of
        None \<Rightarrow> Inl TypeError
      | Some entry \<Rightarrow> Inr (field entry))"

text \<open>The \<open>catch\<close> block: the response for a value thrown inside the \<open>try\<close>
  block, by the gateway call or by the reading of the public key, or the exception that
  the block itself raises.\<close>

definition on_gateway_error :: "jsval \<Rightarrow> jsval + response" where
  "on_gateway_error error =
     (case has_property ''raw'' error of
        Inl e \<Rightarrow> Inl e
      | Inr False \<Rightarrow> Inr (Sent (JNum (Finite 500)) (JObj [(''error'', error)]))
      | Inr True \<Rightarrow>
          (case get_property error ''raw'' of
             Inl e \<Rightarrow> Inl e
           | Inr raw \<Rightarrow>
               (case (get_property raw ''statusCode'', get_property raw ''type'',
                      get_property raw ''param'', get_property raw ''message'') of
                  (Inr statusCode, Inr type, Inr param, Inr message) \<Rightarrow>
                    Inr (Sent statusCode
                           (JObj [(''error'',
                              JObj [(''name'', JStr (to_string type @ '' '' @ to_string param)),
                                    (''message'', message)])]))
                | _ \<Rightarrow> Inl TypeError)))"

text \<open>
  The result of a run: the response, or the exception that leaves the handler, and the
  calls made to the gateway, each with the key of the client and the parameters. The
  secret key is selected before the amount is computed, outside the \<open>try\<close> block;
  the public key is selected after the gateway call, inside it, so that the \<open>catch\<close>
  block also receives what that selection throws.
\<close>

definition handler :: "world \<Rightarrow> request \<Rightarrow> (jsval + response) \<times> gateway_call list" where
  "handler w req =
     (if method req = ''POST'' then
        (if \<not> truthy (credentialsId (inputOptions req)) then (Inr forbidden, [])
         else
           (case getStripeInfo w (case credentialsId (inputOptions req) of Some cid \<Rightarrow> cid | None \<Rightarrow> []) of
              Inl e \<Rightarrow> (Inl e, [])
            | Inr None \<Rightarrow> (Inr forbidden, [])
            | Inr (Some stripeKeys) \<Rightarrow>
                (case (if isPreview req \<and> truthy (Option.bind (test stripeKeys) secretKey)
                       then Inr (Option.bind (test stripeKeys) secretKey)
                       else read_live stripeKeys secretKey) of
                   Inl e \<Rightarrow> (Inl e, [])
                 | Inr key \<Rightarrow>
                (let amount =
                       Math_round
                         (js_mul
                            (Number (parseVariables w (variables req)
                                       (PaymentInputOptions.amount (inputOptions req))))
                            (Finite 100))
                 in if isNaN amount then (Inr badRequest, [])
                    else
                      (let receiptEmail =
                             parseVariables w (variables req)
                               (Option.bind (additionalInformation (inputOptions req)) email);
                           params =
                             \<lparr>amount = amount,
                              currency = PaymentInputOptions.currency (inputOptions req),
                              receipt_email = (if receiptEmail = [] then None else Some receiptEmail),
                              automatic_payment_methods_enabled = True\<rparr>
                       in (case paymentIntents_create w key params of
                             Inr paymentIntent \<Rightarrow>
                               (case (if isPreview req
                                         \<and> truthy (Option.bind (test stripeKeys) publicKey)
                                      then Inr (Option.bind (test stripeKeys) publicKey)
                                      else read_live stripeKeys publicKey) of
                                  Inl e \<Rightarrow> on_gateway_error e
                                | Inr pk \<Rightarrow>
                               Inr (Sent (JNum (Finite 200))
                                 (JObj
                                   [(''clientSecret'',
                                       case client_secret paymentIntent of
                                         None \<Rightarrow> JNull
                                       | Some s \<Rightarrow> JStr s),
                                    (''publicKey'', optional_string pk),
                                    (''amountLabel'',
                                       JStr
                                         (number_to_string (js_div amount (Finite 100))
                                            @ (case map_of currencySymbols
                                                      (PaymentInputOptions.currency (inputOptions req)) of
                                                 Some symbol \<Rightarrow> symbol
                                               | None \<Rightarrow>
                                                   (case map_of Object_prototype
                                                           (PaymentInputOptions.currency (inputOptions req)) of
                                                      Some member \<Rightarrow> inherited_to_string member
                                                    | None \<Rightarrow>
                                                        '' '' @ PaymentInputOptions.currency (inputOptions req)))))])))
                           | Inl err \<Rightarrow> on_gateway_error err,
                           [(key, params)]))))))
      else (Inr methodNotAllowed, []))"

text \<open>
  Modelled from the spec: the module exports \<open>withSentry(handler)\<close>, and neither the
  wrapper nor the framework is part of the sources. By the spec an exception that is not a
  structured provider error is an internal error and is answered with HTTP 500.
\<close>

definition served_status :: "jsval + response \<Rightarrow> jsval" where
  "served_status out = (case out of Inl e \<Rightarrow> JNum (Finite 500) | Inr r \<Rightarrow> http_status r)"

subsection \<open>What a run shows\<close>

abbreviation outcome :: "world \<Rightarrow> request \<Rightarrow> jsval + response" where
  "outcome w req \<equiv> fst (handler w req)"

abbreviation gateway_calls :: "world \<Rightarrow> request \<Rightarrow> gateway_call list" where
  "gateway_calls w req \<equiv> snd (handler w req)"

text \<open>A property of the body that \<open>res.status(code).send(body)\<close> sent.\<close>

fun body_property :: "jsval + response \<Rightarrow> string \<Rightarrow> jsval" where
  "body_property (Inr (Sent code body)) key = property body key"
| "body_property out key = JUndefined"

section \<open>The amount as the specification words it\<close>

text \<open>
  The specification describes the amount as the interpolated expression parsed as a
  decimal number, multiplied by 100 and rounded to the nearest integer, a half going up.
  \<open>spec_minor_units\<close> is that description in exact arithmetic: the value of the
  decimal numeral, with an optional sign, and no rounding before the last step.
\<close>

definition spec_decimal :: "string \<Rightarrow> rat option" where
  "spec_decimal s =
     (case s of
        [] \<Rightarrow> None
      | c # t \<Rightarrow>
          if c = CHR ''+'' then parse_unsigned_decimal t
          else if c = CHR ''-'' then map_option uminus (parse_unsigned_decimal t)
          else parse_unsigned_decimal s)"

definition spec_minor_units :: "string \<Rightarrow> int option" where
  "spec_minor_units s = map_option (\<lambda>m. \<lfloor>m * 100 + 1 / 2\<rfloor>) (spec_decimal s)"

section \<open>Example runs\<close>

text \<open>
  Collaborators and requests for concrete runs: a store with one record, a decryption that
  yields a given credential set, an interpolation of templates that hold no placeholder,
  and gateways that accept, decline with a structured error, or fail otherwise.
\<close>

definition plain_text :: "Variable list \<Rightarrow> string option \<Rightarrow> string" where
  "plain_text vs t = (case t of None \<Rightarrow> [] | Some s \<Rightarrow> s)"

definition one_record :: "string \<Rightarrow> Credentials option" where
  "one_record cid = (if cid = ''cred'' then Some \<lparr>data = ''blob'', iv = ''iv''\<rparr> else None)"

definition example_world ::
  "(jsval + StripeCredentialsData) \<Rightarrow> (string option \<Rightarrow> PaymentIntentParams \<Rightarrow> jsval + PaymentIntent) \<Rightarrow> world" where
  "example_world decrypted gateway =
     \<lparr>findUnique = one_record,
      decrypt = (\<lambda>d i. decrypted),
      parseVariables = plain_text,
      paymentIntents_create = gateway\<rparr>"

definition example_request :: "string option \<Rightarrow> bool \<Rightarrow> string \<Rightarrow> string \<Rightarrow> string option \<Rightarrow> request" where
  "example_request cid preview expr cur mail =
     \<lparr>method = ''POST'',
      inputOptions =
        \<lparr>credentialsId = cid, amount = Some expr, currency = cur,
         additionalInformation = Some \<lparr>email = mail\<rparr>\<rparr>,
      isPreview = preview,
      variables = []\<rparr>"

definition both_keys :: StripeCredentialsData where
  "both_keys =
     \<lparr>live = Some \<lparr>secretKey = Some ''sk_live'', publicKey = Some ''pk_live''\<rparr>,
      test = Some \<lparr>secretKey = Some ''sk_test'', publicKey = None\<rparr>\<rparr>"

definition no_secret_key :: StripeCredentialsData where
  "no_secret_key =
     \<lparr>live = Some \<lparr>secretKey = None, publicKey = Some ''pk_live''\<rparr>, test = None\<rparr>"

definition no_entries :: StripeCredentialsData where
  "no_entries = \<lparr>live = None, test = None\<rparr>"

definition test_secret_only :: StripeCredentialsData where
  "test_secret_only =
     \<lparr>live = None, test = Some \<lparr>secretKey = Some ''sk_test'', publicKey = None\<rparr>\<rparr>"

definition accepting :: "string option \<Rightarrow> PaymentIntentParams \<Rightarrow> jsval + PaymentIntent" where
  "accepting key params = Inr \<lparr>client_secret = Some ''pi_secret''\<rparr>"

definition throwing :: "jsval \<Rightarrow> string option \<Rightarrow> PaymentIntentParams \<Rightarrow> jsval + PaymentIntent" where
  "throwing err key params = Inl err"

definition card_declined :: jsval where
  "card_declined =
     JObj [(''raw'',
            JObj [(''statusCode'', JNum (Finite 402)), (''type'', JStr ''card_error''),
                  (''param'', JStr ''cvc'')])]"

definition connection_lost :: jsval where
  "connection_lost = JObj [(''message'', JStr ''connection lost'')]"

definition null_raw :: jsval where
  "null_raw = JObj [(''raw'', JNull)]"

section \<open>Evaluating the number functions on literals\<close>

lemma floor_rat_numeral_div [simp]:
  "\<lfloor>numeral a / numeral b :: rat\<rfloor> = numeral a div numeral b"
  by (metis floor_divide_of_int_eq of_int_numeral)

lemma floor_rat_neg_numeral_div [simp]:
  "\<lfloor>- (numeral a / numeral b) :: rat\<rfloor> = - numeral a div numeral b"
  by (metis floor_divide_of_int_eq of_int_numeral of_int_minus minus_divide_left)

lemma floor_rat_one_div [simp]:
  "\<lfloor>1 / numeral b :: rat\<rfloor> = 1 div numeral b"
  by (metis floor_divide_of_int_eq of_int_numeral of_int_1)

lemma bitlen_0 [simp]: "bitlen 0 = 0"
  by (simp add: bitlen.simps)

lemma bitlen_1 [simp]: "bitlen 1 = 1"
  by (simp add: bitlen.simps)

lemma bitlen_numeral [simp]: "bitlen (numeral k) = Suc (bitlen (numeral k div 2))"
  by (subst bitlen.simps) simp

lemma declen_0 [simp]: "declen 0 = 0"
  by (simp add: declen.simps)

lemma declen_1 [simp]: "declen 1 = 1"
  by (simp add: declen.simps)

lemma declen_numeral [simp]: "declen (numeral k) = Suc (declen (numeral k div 10))"
  by (subst declen.simps) simp

lemma dec_string_0 [simp]: "dec_string 0 = ''0''"
  by (simp add: dec_string.simps digit_char_def)

lemma dec_string_1 [simp]: "dec_string 1 = ''1''"
  by (simp add: dec_string.simps digit_char_def)

lemma dec_string_numeral [simp]:
  "dec_string (numeral k) =
     (if (numeral k :: int) < 10 then [digit_char (numeral k)]
      else dec_string (numeral k div 10) @ [digit_char (numeral k mod 10)])"
  by (subst dec_string.simps) simp

lemma shortest_digits_numeral [simp]:
  "shortest_digits (numeral n) k x =
     (case pick_digits x k of
        Some s \<Rightarrow> (s, k)
      | None \<Rightarrow> shortest_digits (pred_numeral n) (Suc k) x)"
  by (simp add: numeral_eq_Suc)

lemmas double_eval =
  round_double_def of_magnitude_def double_ulp_def round_half_even_def ilog2_def pow2_def
  ceiling_def

lemmas parse_eval =
  Number_def string_to_number_def non_decimal_integer_def decimal_number_def
  unsigned_decimal_number_def parse_unsigned_decimal_def parse_after_digits_def
  parse_fraction_def scale_by_exponent_def parse_exponent_def pow10_def decimal_run_def
  parse_digits_def is_digit_def digit_in_base_def trim_def trim_leading_def trim_trailing_def
  js_whitespace_def

lemmas to_string_eval =
  positive_to_string_def format_shortest_def format_number_def pick_digits_def
  choose_digits_def round_trips_def digit_unit_def ilog10_def pow10_def digit_char_def


lemma Number_10: "Number ''10'' = Finite 10"
  by (simp add: parse_eval double_eval)

lemma Number_19_999: "Number ''19.999'' = Finite (5629218059236409 / 281474976710656)"
  by (simp add: parse_eval double_eval)

lemma Number_1_005: "Number ''1.005'' = Finite (1131529406376837 / 1125899906842624)"
  by (simp add: parse_eval double_eval)


lemma spec_minor_units_1_005: "spec_minor_units ''1.005'' = Some 101"
  by (simp add: spec_minor_units_def spec_decimal_def parse_eval)

section \<open>The shape of a run\<close>


lemma getStripeInfo_not_found: "(getStripeInfo w cid = Inr None) = (findUnique w cid = None)"
  by (simp add: getStripeInfo_def split: option.splits sum.splits)



lemma gateway_calls_cases:
  "gateway_calls w req = [] \<or>
   (\<exists>cid stripeKeys key.
      method req = ''POST'' \<and> credentialsId (inputOptions req) = Some cid \<and> cid \<noteq> []
      \<and> getStripeInfo w cid = Inr (Some stripeKeys)
      \<and> (if isPreview req \<and> truthy (Option.bind (test stripeKeys) secretKey)
           then Inr (Option.bind (test stripeKeys) secretKey)
           else read_live stripeKeys secretKey) = Inr key
      \<and> \<not> isNaN (Math_round (js_mul (Number (parseVariables w (variables req)
               (PaymentInputOptions.amount (inputOptions req)))) (Finite 100))))"
  by (cases "credentialsId (inputOptions req)")
     (auto simp: handler_def Let_def split: sum.splits option.splits)

lemma handler_charge:
  assumes "method req = ''POST''"
      and "credentialsId (inputOptions req) = Some cid" and "cid \<noteq> []"
      and "getStripeInfo w cid = Inr (Some stripeKeys)"
      and "(if isPreview req \<and> truthy (Option.bind (test stripeKeys) secretKey)
            then Inr (Option.bind (test stripeKeys) secretKey)
            else read_live stripeKeys secretKey) = Inr key"
      and "\<not> isNaN (Math_round (js_mul (Number (parseVariables w (variables req)
               (PaymentInputOptions.amount (inputOptions req)))) (Finite 100)))"
      and "params =
             \<lparr>amount = Math_round (js_mul (Number (parseVariables w (variables req)
                         (PaymentInputOptions.amount (inputOptions req)))) (Finite 100)),
              currency = PaymentInputOptions.currency (inputOptions req),
              receipt_email =
                (if parseVariables w (variables req)
                      (Option.bind (additionalInformation (inputOptions req)) email) = []
                 then None
                 else Some (parseVariables w (variables req)
                      (Option.bind (additionalInformation (inputOptions req)) email))),
              automatic_payment_methods_enabled = True\<rparr>"
  shows "gateway_calls w req = [(key, params)]"
    and "outcome w req =
           (case paymentIntents_create w key params of
              Inl err \<Rightarrow> on_gateway_error err
            | Inr paymentIntent \<Rightarrow>
                (case (if isPreview req \<and> truthy (Option.bind (test stripeKeys) publicKey)
                       then Inr (Option.bind (test stripeKeys) publicKey)
                       else read_live stripeKeys publicKey) of
                   Inl e \<Rightarrow> on_gateway_error e
                 | Inr pk \<Rightarrow>
                     Inr (Sent (JNum (Finite 200))
                       (JObj
                         [(''clientSecret'',
                             case client_secret paymentIntent of None \<Rightarrow> JNull | Some s \<Rightarrow> JStr s),
                          (''publicKey'', optional_string pk),
                          (''amountLabel'',
                             JStr (number_to_string (js_div (amount params) (Finite 100))
                               @ (case map_of currencySymbols (currency params) of
                                    Some symbol \<Rightarrow> symbol
                                  | None \<Rightarrow>
                                      (case map_of Object_prototype (currency params) of
                                         Some member \<Rightarrow> inherited_to_string member
                                       | None \<Rightarrow> '' '' @ currency params))))]))))"
  unfolding assms(7) using assms(1-6)
  by (simp_all add: handler_def Let_def split: sum.splits cong: option.case_cong)

lemma call_made:
  assumes "(key, params) \<in> set (gateway_calls w req)"
  shows "\<exists>cid stripeKeys.
      method req = ''POST'' \<and> credentialsId (inputOptions req) = Some cid \<and> cid \<noteq> []
      \<and> getStripeInfo w cid = Inr (Some stripeKeys)
      \<and> \<not> isNaN (Math_round (js_mul (Number (parseVariables w (variables req)
               (PaymentInputOptions.amount (inputOptions req)))) (Finite 100)))
      \<and> (if isPreview req \<and> truthy (Option.bind (test stripeKeys) secretKey)
           then Inr (Option.bind (test stripeKeys) secretKey)
           else read_live stripeKeys secretKey) = Inr key
      \<and> params =
             \<lparr>amount = Math_round (js_mul (Number (parseVariables w (variables req)
                         (PaymentInputOptions.amount (inputOptions req)))) (Finite 100)),
              currency = PaymentInputOptions.currency (inputOptions req),
              receipt_email =
                (if parseVariables w (variables req)
                      (Option.bind (additionalInformation (inputOptions req)) email) = []
                 then None
                 else Some (parseVariables w (variables req)
                      (Option.bind (additionalInformation (inputOptions req)) email))),
              automatic_payment_methods_enabled = True\<rparr>"
proof -
  from assms have "gateway_calls w req \<noteq> []"
    by auto
  with gateway_calls_cases [of w req] obtain cid stripeKeys key' where
    r: "method req = ''POST''" "credentialsId (inputOptions req) = Some cid" "cid \<noteq> []"
       "getStripeInfo w cid = Inr (Some stripeKeys)"
       "(if isPreview req \<and> truthy (Option.bind (test stripeKeys) secretKey)
           then Inr (Option.bind (test stripeKeys) secretKey)
           else read_live stripeKeys secretKey) = Inr key'"
       "\<not> isNaN (Math_round (js_mul (Number (parseVariables w (variables req)
               (PaymentInputOptions.amount (inputOptions req)))) (Finite 100)))"
    by blast
  from handler_charge(1) [OF r refl] assms have "key = key'"
    and "params =
             \<lparr>amount = Math_round (js_mul (Number (parseVariables w (variables req)
                         (PaymentInputOptions.amount (inputOptions req)))) (Finite 100)),
              currency = PaymentInputOptions.currency (inputOptions req),
              receipt_email =
                (if parseVariables w (variables req)
                      (Option.bind (additionalInformation (inputOptions req)) email) = []
                 then None
                 else Some (parseVariables w (variables req)
                      (Option.bind (additionalInformation (inputOptions req)) email))),
              automatic_payment_methods_enabled = True\<rparr>"
    by auto
  with r show ?thesis
    by blast
qed

lemma call_result:
  assumes "(key, params) \<in> set (gateway_calls w req)"
      and "credentialsId (inputOptions req) = Some cid"
      and "getStripeInfo w cid = Inr (Some stripeKeys)"
  shows "outcome w req =
           (case paymentIntents_create w key params of
              Inl err \<Rightarrow> on_gateway_error err
            | Inr paymentIntent \<Rightarrow>
                (case (if isPreview req \<and> truthy (Option.bind (test stripeKeys) publicKey)
                       then Inr (Option.bind (test stripeKeys) publicKey)
                       else read_live stripeKeys publicKey) of
                   Inl e \<Rightarrow> on_gateway_error e
                 | Inr pk \<Rightarrow>
                     Inr (Sent (JNum (Finite 200))
                       (JObj
                         [(''clientSecret'',
                             case client_secret paymentIntent of None \<Rightarrow> JNull | Some s \<Rightarrow> JStr s),
                          (''publicKey'', optional_string pk),
                          (''amountLabel'',
                             JStr (number_to_string (js_div (amount params) (Finite 100))
                               @ (case map_of currencySymbols (currency params) of
                                    Some symbol \<Rightarrow> symbol
                                  | None \<Rightarrow>
                                      (case map_of Object_prototype (currency params) of
                                         Some member \<Rightarrow> inherited_to_string member
                                       | None \<Rightarrow> '' '' @ currency params))))]))))"
proof -
  from call_made [OF assms(1)] assms(2,3) have
    r: "method req = ''POST''" "credentialsId (inputOptions req) = Some cid" "cid \<noteq> []"
       "getStripeInfo w cid = Inr (Some stripeKeys)"
       "(if isPreview req \<and> truthy (Option.bind (test stripeKeys) secretKey)
           then Inr (Option.bind (test stripeKeys) secretKey)
           else read_live stripeKeys secretKey) = Inr key"
       "\<not> isNaN (Math_round (js_mul (Number (parseVariables w (variables req)
               (PaymentInputOptions.amount (inputOptions req)))) (Finite 100)))"
    and p: "params =
             \<lparr>amount = Math_round (js_mul (Number (parseVariables w (variables req)
                         (PaymentInputOptions.amount (inputOptions req)))) (Finite 100)),
              currency = PaymentInputOptions.currency (inputOptions req),
              receipt_email =
                (if parseVariables w (variables req)
                      (Option.bind (additionalInformation (inputOptions req)) email) = []
                 then None
                 else Some (parseVariables w (variables req)
                      (Option.bind (additionalInformation (inputOptions req)) email))),
              automatic_payment_methods_enabled = True\<rparr>"
    by auto
  from handler_charge(2) [OF r p] show ?thesis .
qed

lemma call_failure:
  assumes "(key, params) \<in> set (gateway_calls w req)"
      and "paymentIntents_create w key params = Inl err"
  shows "outcome w req = on_gateway_error err"
proof -
  from call_made [OF assms(1)] obtain cid stripeKeys where
    "credentialsId (inputOptions req) = Some cid" "getStripeInfo w cid = Inr (Some stripeKeys)"
    by blast
  from call_result [OF assms(1) this] assms(2) show ?thesis
    by simp
qed

section \<open>The example runs\<close>

lemmas example_eval =
  handler_def getStripeInfo_def on_gateway_error_def get_property_def read_live_def
  example_world_def example_request_def one_record_def plain_text_def both_keys_def
  no_secret_key_def no_entries_def test_secret_only_def accepting_def throwing_def
  card_declined_def connection_lost_def null_raw_def currencySymbols_def
  Object_prototype_def TypeError_def isNaN_def Let_def



lemma run_19_999:
  "handler (example_world (Inr both_keys) accepting)
     (example_request (Some ''cred'') False ''19.999'' ''USD'' None) =
   (Inr (Sent (JNum (Finite 200))
      (JObj [(''clientSecret'', JStr ''pi_secret''), (''publicKey'', JStr ''pk_live''),
             (''amountLabel'', JStr ''20$'')])),
    [(Some ''sk_live'',
      \<lparr>amount = Finite 2000, currency = ''USD'', receipt_email = None,
       automatic_payment_methods_enabled = True\<rparr>)])"
  by (simp add: example_eval Number_19_999 double_eval to_string_eval)

lemma run_1_005:
  "gateway_calls (example_world (Inr both_keys) accepting)
     (example_request (Some ''cred'') False ''1.005'' ''USD'' None) =
    [(Some ''sk_live'',
      \<lparr>amount = Finite 100, currency = ''USD'', receipt_email = None,
       automatic_payment_methods_enabled = True\<rparr>)]"
  by (simp add: example_eval Number_1_005 double_eval)

lemma run_no_secret_key:
  "handler (example_world (Inr no_secret_key) accepting)
     (example_request (Some ''cred'') False ''10'' ''USD'' None) =
   (Inr (Sent (JNum (Finite 200))
      (JObj [(''clientSecret'', JStr ''pi_secret''), (''publicKey'', JStr ''pk_live''),
             (''amountLabel'', JStr ''10$'')])),
    [(None,
      \<lparr>amount = Finite 1000, currency = ''USD'', receipt_email = None,
       automatic_payment_methods_enabled = True\<rparr>)])"
  by (simp add: example_eval Number_10 double_eval to_string_eval)

lemma run_no_entries:
  "handler (example_world (Inr no_entries) accepting)
     (example_request (Some ''cred'') False expr ''USD'' None) = (Inl TypeError, [])"
  by (simp add: handler_def getStripeInfo_def read_live_def example_world_def
        example_request_def one_record_def no_entries_def)


lemma run_throwing:
  "handler (example_world (Inr both_keys) (throwing err))
     (example_request (Some ''cred'') False ''10'' ''USD'' None) =
   (on_gateway_error err,
    [(Some ''sk_live'',
      \<lparr>amount = Finite 1000, currency = ''USD'', receipt_email = None,
       automatic_payment_methods_enabled = True\<rparr>)])"
  by (simp add: handler_def getStripeInfo_def read_live_def example_world_def
        example_request_def one_record_def plain_text_def both_keys_def throwing_def
        isNaN_def Let_def Number_10 double_eval)

lemma connection_lost_response:
  "on_gateway_error connection_lost =
     Inr (Sent (JNum (Finite 500)) (JObj [(''error'', connection_lost)]))"
  by (simp add: on_gateway_error_def get_property_def connection_lost_def)

lemma null_raw_response: "on_gateway_error null_raw = Inl TypeError"
  by (simp add: on_gateway_error_def get_property_def null_raw_def)

lemma resolved_example:
  "getStripeInfo (example_world (Inr stripeKeys) gateway) ''cred'' = Inr (Some stripeKeys)"
  by (simp add: getStripeInfo_def example_world_def one_record_def)

section \<open>The claims\<close>



text \<open>
  C7. When the credential record of a request is found and its decryption fails, the
  failure leaves \<open>getStripeInfo\<close> and the handler as it was thrown: no response of
  the handler replaces it, the gateway is not called, and the request is answered with
  HTTP 500.
\<close>

theorem decryption_failure_propagates:
  assumes "method req = ''POST''"
      and "credentialsId (inputOptions req) = Some cid" and "cid \<noteq> []"
      and "findUnique w cid = Some credentials"
      and "decrypt w (data credentials) (iv credentials) = Inl e"
  shows "getStripeInfo w cid = Inl e \<and> handler w req = (Inl e, [])
         \<and> served_status (outcome w req) = JNum (Finite 500)"
  using assms by (simp add: handler_def getStripeInfo_def served_status_def)

theorem decryption_failure_propagates_example:
  "method (example_request (Some ''cred'') False ''10'' ''USD'' None) = ''POST''
   \<and> credentialsId (inputOptions (example_request (Some ''cred'') False ''10'' ''USD'' None)) = Some ''cred''
   \<and> findUnique (example_world (Inl connection_lost) accepting) ''cred'' = Some \<lparr>data = ''blob'', iv = ''iv''\<rparr>
   \<and> decrypt (example_world (Inl connection_lost) accepting) ''blob'' ''iv'' = Inl connection_lost
   \<and> handler (example_world (Inl connection_lost) accepting)
         (example_request (Some ''cred'') False ''10'' ''USD'' None) = (Inl connection_lost, [])
   \<and> served_status (outcome (example_world (Inl connection_lost) accepting)
         (example_request (Some ''cred'') False ''10'' ''USD'' None)) = JNum (Finite 500)"
proof -
  let ?w = "example_world (Inl connection_lost) accepting"
  let ?req = "example_request (Some ''cred'') False ''10'' ''USD'' None"
  have h1: "method ?req = ''POST''"
    and h2: "credentialsId (inputOptions ?req) = Some ''cred''"
    by (simp_all add: example_request_def)
  have h3: "''cred'' \<noteq> []"
    by simp
  have h4: "findUnique ?w ''cred'' = Some \<lparr>data = ''blob'', iv = ''iv''\<rparr>"
    by (simp add: example_world_def one_record_def)
  have h5: "decrypt ?w (data \<lparr>data = ''blob'', iv = ''iv''\<rparr>) (iv \<lparr>data = ''blob'', iv = ''iv''\<rparr>)
              = Inl connection_lost"
    by (simp add: example_world_def)
  then have h5': "decrypt ?w ''blob'' ''iv'' = Inl connection_lost"
    by simp
  note c = decryption_failure_propagates [OF h1 h2 h3 h4 h5]
  from c have c1: "handler ?w ?req = (Inl connection_lost, [])"
    by blast
  from c have c2: "served_status (outcome ?w ?req) = JNum (Finite 500)"
    by blast
  from h1 h2 h4 h5' c1 c2 show ?thesis
    by (intro conjI)
qed



text \<open>
  C4. When the gateway call fails with an error that carries a nested \<open>raw\<close> payload,
  the handler responds with the HTTP status \<open>raw.statusCode\<close> and an error body whose
  name is the type tag and the parameter name of the payload joined by a space and whose
  message is \<open>raw.message\<close>; a payload with status 402, type \<open>card_error\<close> and
  parameter \<open>cvc\<close> gives HTTP 402 and the name \<open>card_error cvc\<close>.
\<close>

theorem structured_provider_error:
  assumes "(key, params) \<in> set (gateway_calls w req)"
      and "paymentIntents_create w key params = Inl (JObj props)"
      and "map_of props ''raw'' = Some (JObj raw)"
  shows "outcome w req =
           Inr (Sent (property (JObj raw) ''statusCode'')
             (JObj [(''error'',
                JObj [(''name'', JStr (to_string (property (JObj raw) ''type'') @ '' ''
                                        @ to_string (property (JObj raw) ''param''))),
                      (''message'', property (JObj raw) ''message'')])]))
         \<and> served_status (outcome w req) = property (JObj raw) ''statusCode''"
proof -
  from assms(3) have "''raw'' \<in> set (map fst props)"
    by (metis map_of_eq_None_iff option.distinct(1) set_map)
  with assms(3) have
    "on_gateway_error (JObj props) =
       Inr (Sent (property (JObj raw) ''statusCode'')
         (JObj [(''error'',
            JObj [(''name'', JStr (to_string (property (JObj raw) ''type'') @ '' ''
                                    @ to_string (property (JObj raw) ''param''))),
                  (''message'', property (JObj raw) ''message'')])]))"
    by (simp add: on_gateway_error_def get_property_def)
  with call_failure [OF assms(1,2)] show ?thesis
    by (simp add: served_status_def)
qed

theorem structured_provider_error_example:
  "(Some ''sk_live'',
      \<lparr>amount = Finite 1000, currency = ''USD'', receipt_email = None,
       automatic_payment_methods_enabled = True\<rparr>)
     \<in> set (gateway_calls (example_world (Inr both_keys) (throwing card_declined))
              (example_request (Some ''cred'') False ''10'' ''USD'' None))
   \<and> paymentIntents_create (example_world (Inr both_keys) (throwing card_declined))
         (Some ''sk_live'')
         \<lparr>amount = Finite 1000, currency = ''USD'', receipt_email = None,
          automatic_payment_methods_enabled = True\<rparr> = Inl card_declined
   \<and> outcome (example_world (Inr both_keys) (throwing card_declined))
         (example_request (Some ''cred'') False ''10'' ''USD'' None) =
       Inr (Sent (JNum (Finite 402))
         (JObj [(''error'',
            JObj [(''name'', JStr ''card_error cvc''), (''message'', JUndefined)])]))"
proof -
  let ?w = "example_world (Inr both_keys) (throwing card_declined)"
  let ?req = "example_request (Some ''cred'') False ''10'' ''USD'' None"
  let ?params = "\<lparr>amount = Finite 1000, currency = ''USD'', receipt_email = None,
         automatic_payment_methods_enabled = True\<rparr>"
  let ?raw = "[(''statusCode'', JNum (Finite 402)), (''type'', JStr ''card_error''),
               (''param'', JStr ''cvc'')]"
  have h1: "(Some ''sk_live'', ?params) \<in> set (gateway_calls ?w ?req)"
    by (simp add: run_throwing)
  have h2: "paymentIntents_create ?w (Some ''sk_live'') ?params = Inl (JObj [(''raw'', JObj ?raw)])"
    by (simp add: example_world_def throwing_def card_declined_def)
  have h3: "map_of [(''raw'', JObj ?raw)] ''raw'' = Some (JObj ?raw)"
    by simp
  from structured_provider_error [OF h1 h2 h3]
  have c: "outcome ?w ?req =
       Inr (Sent (JNum (Finite 402))
         (JObj [(''error'',
            JObj [(''name'', JStr ''card_error cvc''), (''message'', JUndefined)])]))"
    by simp
  from h2 have h2': "paymentIntents_create ?w (Some ''sk_live'') ?params = Inl card_declined"
    by (simp add: card_declined_def)
  from h1 h2' c show ?thesis
    by (intro conjI)
qed







text \<open>
  C3, as amended. The amount sent to the gateway is
  \<open>Math.round(Number(e) * 100)\<close> computed on binary64 numbers, \<open>e\<close> being the
  interpolated amount expression: \<open>Number\<close> gives the binary64 value nearest to the
  numeral, the product with 100 is rounded to the nearest binary64 value, and
  \<open>Math.round\<close> takes the nearest integer, a half going up. The expression
  \<open>19.999\<close> gives 2000 minor units.
\<close>

theorem amount_in_minor_units:
  assumes "(key, params) \<in> set (gateway_calls w req)"
  shows "amount params =
           Math_round (js_mul (Number (parseVariables w (variables req)
               (PaymentInputOptions.amount (inputOptions req)))) (Finite 100))
         \<and> (parseVariables w (variables req) (PaymentInputOptions.amount (inputOptions req))
               = ''19.999''
            \<longrightarrow> amount params = Finite 2000)"
proof -
  from call_made [OF assms]
  have a: "amount params =
           Math_round (js_mul (Number (parseVariables w (variables req)
               (PaymentInputOptions.amount (inputOptions req)))) (Finite 100))"
    by auto
  moreover have "amount params = Finite 2000"
    if "parseVariables w (variables req) (PaymentInputOptions.amount (inputOptions req))
          = ''19.999''"
    using a that by (simp add: Number_19_999 double_eval)
  ultimately show ?thesis
    by blast
qed

theorem amount_in_minor_units_example:
  "(Some ''sk_live'',
      \<lparr>amount = Finite 2000, currency = ''USD'', receipt_email = None,
       automatic_payment_methods_enabled = True\<rparr>)
     \<in> set (gateway_calls (example_world (Inr both_keys) accepting)
              (example_request (Some ''cred'') False ''19.999'' ''USD'' None))
   \<and> parseVariables (example_world (Inr both_keys) accepting)
         (variables (example_request (Some ''cred'') False ''19.999'' ''USD'' None))
         (PaymentInputOptions.amount (inputOptions
            (example_request (Some ''cred'') False ''19.999'' ''USD'' None))) = ''19.999''
   \<and> amount
         \<lparr>amount = Finite 2000, currency = ''USD'', receipt_email = None,
          automatic_payment_methods_enabled = True\<rparr> =
       Math_round (js_mul (Number ''19.999'') (Finite 100))"
proof -
  let ?w = "example_world (Inr both_keys) accepting"
  let ?req = "example_request (Some ''cred'') False ''19.999'' ''USD'' None"
  let ?params = "\<lparr>amount = Finite 2000, currency = ''USD'', receipt_email = None,
         automatic_payment_methods_enabled = True\<rparr>"
  have h: "(Some ''sk_live'', ?params) \<in> set (gateway_calls ?w ?req)"
    by (simp add: run_19_999)
  have e: "parseVariables ?w (variables ?req) (PaymentInputOptions.amount (inputOptions ?req))
             = ''19.999''"
    by (simp add: example_world_def example_request_def plain_text_def)
  from amount_in_minor_units [OF h]
  have "amount ?params =
           Math_round (js_mul (Number (parseVariables ?w (variables ?req)
               (PaymentInputOptions.amount (inputOptions ?req)))) (Finite 100))"
    by blast
  with e have c: "amount ?params = Math_round (js_mul (Number ''19.999'') (Finite 100))"
    by (simp del: js_mul.simps Math_round.simps)
  from h e c show ?thesis
    by (intro conjI)
qed

text \<open>
  C3 as stated fails in exact arithmetic: for the expression \<open>1.005\<close> the handler
  sends 100 minor units, while the decimal number 1.005 times 100 is 100.5, which a half
  going up rounds to 101.
\<close>

theorem amount_1_005_is_not_rounded_half_up:
  "parseVariables (example_world (Inr both_keys) accepting)
      (variables (example_request (Some ''cred'') False ''1.005'' ''USD'' None))
      (PaymentInputOptions.amount (inputOptions
         (example_request (Some ''cred'') False ''1.005'' ''USD'' None))) = ''1.005''
   \<and> gateway_calls (example_world (Inr both_keys) accepting)
        (example_request (Some ''cred'') False ''1.005'' ''USD'' None) =
      [(Some ''sk_live'',
        \<lparr>amount = Finite 100, currency = ''USD'', receipt_email = None,
         automatic_payment_methods_enabled = True\<rparr>)]
   \<and> spec_minor_units ''1.005'' = Some 101"
  by (simp add: run_1_005 spec_minor_units_1_005)
     (simp add: example_world_def example_request_def plain_text_def)

text \<open>
  C5, as amended. When the gateway call fails with an error object that has no
  \<open>raw\<close> property, the handler responds with HTTP 500 and the body
  \<open>{error: e}\<close>, \<open>e\<close> being the thrown object itself, which the response layer
  serializes. The handler gives the error no name.
\<close>

theorem unstructured_error:
  assumes "(key, params) \<in> set (gateway_calls w req)"
      and "paymentIntents_create w key params = Inl (JObj props)"
      and "''raw'' \<notin> set (map fst props)"
  shows "outcome w req = Inr (Sent (JNum (Finite 500)) (JObj [(''error'', JObj props)]))
         \<and> served_status (outcome w req) = JNum (Finite 500)
         \<and> body_property (outcome w req) ''error'' = JObj props"
proof -
  from assms(3) have
    "on_gateway_error (JObj props) = Inr (Sent (JNum (Finite 500)) (JObj [(''error'', JObj props)]))"
    by (simp add: on_gateway_error_def)
  with call_failure [OF assms(1,2)] show ?thesis
    by (simp add: served_status_def)
qed

theorem unstructured_error_example:
  "(Some ''sk_live'',
      \<lparr>amount = Finite 1000, currency = ''USD'', receipt_email = None,
       automatic_payment_methods_enabled = True\<rparr>)
     \<in> set (gateway_calls (example_world (Inr both_keys) (throwing connection_lost))
              (example_request (Some ''cred'') False ''10'' ''USD'' None))
   \<and> paymentIntents_create (example_world (Inr both_keys) (throwing connection_lost))
         (Some ''sk_live'')
         \<lparr>amount = Finite 1000, currency = ''USD'', receipt_email = None,
          automatic_payment_methods_enabled = True\<rparr> = Inl connection_lost
   \<and> ''raw'' \<notin> set (map fst [(''message'', JStr ''connection lost'')])
   \<and> outcome (example_world (Inr both_keys) (throwing connection_lost))
         (example_request (Some ''cred'') False ''10'' ''USD'' None) =
       Inr (Sent (JNum (Finite 500)) (JObj [(''error'', connection_lost)]))"
proof -
  let ?w = "example_world (Inr both_keys) (throwing connection_lost)"
  let ?req = "example_request (Some ''cred'') False ''10'' ''USD'' None"
  let ?params = "\<lparr>amount = Finite 1000, currency = ''USD'', receipt_email = None,
         automatic_payment_methods_enabled = True\<rparr>"
  let ?props = "[(''message'', JStr ''connection lost'')]"
  have h1: "(Some ''sk_live'', ?params) \<in> set (gateway_calls ?w ?req)"
    by (simp add: run_throwing)
  have h2: "paymentIntents_create ?w (Some ''sk_live'') ?params = Inl (JObj ?props)"
    by (simp add: example_world_def throwing_def connection_lost_def)
  have h3: "''raw'' \<notin> set (map fst ?props)"
    by simp
  from unstructured_error [OF h1 h2 h3]
  have "outcome ?w ?req = Inr (Sent (JNum (Finite 500)) (JObj [(''error'', JObj ?props)]))"
    by blast
  then have c: "outcome ?w ?req = Inr (Sent (JNum (Finite 500)) (JObj [(''error'', connection_lost)]))"
    by (simp add: connection_lost_def)
  from h2 have h2': "paymentIntents_create ?w (Some ''sk_live'') ?params = Inl connection_lost"
    by (simp add: connection_lost_def)
  from h1 h2' h3 c show ?thesis
    by (intro conjI)
qed

text \<open>
  C5 as stated fails: for a thrown object without \<open>raw\<close> the error of the body is the
  object itself, and its name is not \<open>internal\<close>; here it has no name.
\<close>

theorem unstructured_error_has_no_name:
  "paymentIntents_create (example_world (Inr both_keys) (throwing connection_lost))
      (Some ''sk_live'')
      \<lparr>amount = Finite 1000, currency = ''USD'', receipt_email = None,
       automatic_payment_methods_enabled = True\<rparr> = Inl connection_lost
   \<and> handler (example_world (Inr both_keys) (throwing connection_lost))
        (example_request (Some ''cred'') False ''10'' ''USD'' None) =
      (Inr (Sent (JNum (Finite 500)) (JObj [(''error'', connection_lost)])),
       [(Some ''sk_live'',
         \<lparr>amount = Finite 1000, currency = ''USD'', receipt_email = None,
          automatic_payment_methods_enabled = True\<rparr>)])
   \<and> property (body_property
        (outcome (example_world (Inr both_keys) (throwing connection_lost))
           (example_request (Some ''cred'') False ''10'' ''USD'' None)) ''error'') ''name''
       = JUndefined
   \<and> property (body_property
        (outcome (example_world (Inr both_keys) (throwing connection_lost))
           (example_request (Some ''cred'') False ''10'' ''USD'' None)) ''error'') ''name''
       \<noteq> JStr ''internal''"
  by (simp add: run_throwing connection_lost_response)
     (simp add: example_world_def throwing_def connection_lost_def)

text \<open>
  C6, as amended. The handler does not check that a usable secret key exists. For a POST
  it answers \<open>forbidden\<close>, HTTP 403, exactly when the request has no
  \<open>credentialsId\<close> (absent or empty) or the store has no record under it. For a
  resolved credential set, when the secret key is read from the live entry and the set
  has none, the \<open>TypeError\<close> of that read leaves the handler and the gateway is not
  called; otherwise, when the amount is a number, the handler calls the gateway with the
  selected key, present or not.
\<close>

theorem forbidden_only_without_credentials:
  assumes "method req = ''POST''"
  shows "(outcome w req = Inr forbidden) =
           (\<not> truthy (credentialsId (inputOptions req))
            \<or> (\<exists>cid. credentialsId (inputOptions req) = Some cid \<and> findUnique w cid = None))
         \<and> (credentialsId (inputOptions req) = Some cid \<and> cid \<noteq> []
              \<and> getStripeInfo w cid = Inr (Some stripeKeys) \<longrightarrow>
              (if isPreview req \<and> truthy (Option.bind (test stripeKeys) secretKey)
               then \<not> isNaN (Math_round (js_mul (Number (parseVariables w (variables req)
                          (PaymentInputOptions.amount (inputOptions req)))) (Finite 100))) \<longrightarrow>
                    (\<exists>params. gateway_calls w req =
                       [(Option.bind (test stripeKeys) secretKey, params)])
               else case live stripeKeys of
                      None \<Rightarrow> handler w req = (Inl TypeError, [])
                    | Some entry \<Rightarrow>
                        \<not> isNaN (Math_round (js_mul (Number (parseVariables w (variables req)
                          (PaymentInputOptions.amount (inputOptions req)))) (Finite 100))) \<longrightarrow>
                        (\<exists>params. gateway_calls w req = [(secretKey entry, params)])))"
proof -
  have not_forbidden: "on_gateway_error err \<noteq> Inr forbidden" for err
    by (auto simp: on_gateway_error_def split: sum.splits bool.splits)
  have a: "(outcome w req = Inr forbidden) =
           (\<not> truthy (credentialsId (inputOptions req))
            \<or> (\<exists>cid. credentialsId (inputOptions req) = Some cid \<and> findUnique w cid = None))"
  proof (cases "truthy (credentialsId (inputOptions req))")
    case False
    with assms show ?thesis
      by (simp add: handler_def)
  next
    case True
    then obtain cid where c: "credentialsId (inputOptions req) = Some cid" "cid \<noteq> []"
      by (cases "credentialsId (inputOptions req)") auto
    show ?thesis
    proof (cases "getStripeInfo w cid")
      case (Inl e)
      then have "findUnique w cid \<noteq> None"
        using getStripeInfo_not_found [of w cid] by simp
      with Inl assms c show ?thesis
        by (simp add: handler_def)
    next
      case (Inr found)
      show ?thesis
      proof (cases found)
        case None
        with Inr have "findUnique w cid = None"
          by (simp add: getStripeInfo_not_found)
        with None Inr assms c show ?thesis
          by (simp add: handler_def)
      next
        case (Some stripeKeys)
        with Inr have "findUnique w cid \<noteq> None"
          using getStripeInfo_not_found [of w cid] by simp
        with Some Inr assms c not_forbidden show ?thesis
          by (simp add: handler_def Let_def split: sum.splits)
      qed
    qed
  qed
  have b: "if isPreview req \<and> truthy (Option.bind (test stripeKeys) secretKey)
               then \<not> isNaN (Math_round (js_mul (Number (parseVariables w (variables req)
                          (PaymentInputOptions.amount (inputOptions req)))) (Finite 100))) \<longrightarrow>
                    (\<exists>params. gateway_calls w req =
                       [(Option.bind (test stripeKeys) secretKey, params)])
               else case live stripeKeys of
                      None \<Rightarrow> handler w req = (Inl TypeError, [])
                    | Some entry \<Rightarrow>
                        \<not> isNaN (Math_round (js_mul (Number (parseVariables w (variables req)
                          (PaymentInputOptions.amount (inputOptions req)))) (Finite 100))) \<longrightarrow>
                        (\<exists>params. gateway_calls w req = [(secretKey entry, params)])"
    if r: "credentialsId (inputOptions req) = Some cid" "cid \<noteq> []"
       "getStripeInfo w cid = Inr (Some stripeKeys)"
  proof (cases "isPreview req \<and> truthy (Option.bind (test stripeKeys) secretKey)")
    case True
    then have "(if isPreview req \<and> truthy (Option.bind (test stripeKeys) secretKey)
            then Inr (Option.bind (test stripeKeys) secretKey)
            else read_live stripeKeys secretKey) = Inr (Option.bind (test stripeKeys) secretKey)"
      by simp
    from handler_charge(1) [OF assms r this _ refl] True show ?thesis
      by auto
  next
    case False
    show ?thesis
    proof (cases "live stripeKeys")
      case None
      with False assms r show ?thesis
        by (auto simp: handler_def read_live_def)
    next
      case (Some entry)
      with False have "(if isPreview req \<and> truthy (Option.bind (test stripeKeys) secretKey)
            then Inr (Option.bind (test stripeKeys) secretKey)
            else read_live stripeKeys secretKey) = Inr (secretKey entry)"
        by (auto simp: read_live_def)
      from handler_charge(1) [OF assms r this _ refl] False Some show ?thesis
        by auto
    qed
  qed
  from a b show ?thesis
    by blast
qed

theorem forbidden_only_without_credentials_example:
  "method (example_request (Some ''cred'') False ''10'' ''USD'' None) = ''POST''
   \<and> credentialsId (inputOptions (example_request (Some ''cred'') False ''10'' ''USD'' None)) = Some ''cred''
   \<and> findUnique (example_world (Inr no_secret_key) accepting) ''cred'' \<noteq> None
   \<and> getStripeInfo (example_world (Inr no_secret_key) accepting) ''cred'' = Inr (Some no_secret_key)
   \<and> getStripeInfo (example_world (Inr no_entries) accepting) ''cred'' = Inr (Some no_entries)
   \<and> \<not> isNaN (Math_round (js_mul (Number (parseVariables (example_world (Inr no_secret_key) accepting)
          (variables (example_request (Some ''cred'') False ''10'' ''USD'' None))
          (PaymentInputOptions.amount (inputOptions
             (example_request (Some ''cred'') False ''10'' ''USD'' None))))) (Finite 100)))
   \<and> outcome (example_world (Inr no_secret_key) accepting)
        (example_request (Some ''cred'') False ''10'' ''USD'' None) \<noteq> Inr forbidden
   \<and> (\<exists>params. gateway_calls (example_world (Inr no_secret_key) accepting)
        (example_request (Some ''cred'') False ''10'' ''USD'' None) = [(None, params)])
   \<and> handler (example_world (Inr no_entries) accepting)
        (example_request (Some ''cred'') False ''10'' ''USD'' None) = (Inl TypeError, [])"
proof -
  let ?w = "example_world (Inr no_secret_key) accepting"
  let ?v = "example_world (Inr no_entries) accepting"
  let ?req = "example_request (Some ''cred'') False ''10'' ''USD'' None"
  have h1: "method ?req = ''POST''"
    and h2: "credentialsId (inputOptions ?req) = Some ''cred''"
    and np: "\<not> isPreview ?req"
    by (simp_all add: example_request_def)
  have f: "findUnique ?w ''cred'' \<noteq> None"
    by (simp add: example_world_def one_record_def)
  have h3: "getStripeInfo ?w ''cred'' = Inr (Some no_secret_key)"
    and h3': "getStripeInfo ?v ''cred'' = Inr (Some no_entries)"
    by (rule resolved_example)+
  have h4: "\<not> isNaN (Math_round (js_mul (Number (parseVariables ?w (variables ?req)
                     (PaymentInputOptions.amount (inputOptions ?req)))) (Finite 100)))"
    by (simp add: example_world_def example_request_def plain_text_def Number_10 isNaN_def
          double_eval)
  have h5: "''cred'' \<noteq> []"
    by simp
  have l: "live no_secret_key = Some \<lparr>secretKey = None, publicKey = Some ''pk_live''\<rparr>"
    and l': "live no_entries = None"
    by (simp_all add: no_secret_key_def no_entries_def)
  note c = forbidden_only_without_credentials [OF h1, of ?w "''cred''" no_secret_key]
  from c h2 f have c1: "outcome ?w ?req \<noteq> Inr forbidden"
    by simp
  from c h2 h3 h5 np have
    "case live no_secret_key of
       None \<Rightarrow> handler ?w ?req = (Inl TypeError, [])
     | Some entry \<Rightarrow>
         \<not> isNaN (Math_round (js_mul (Number (parseVariables ?w (variables ?req)
                          (PaymentInputOptions.amount (inputOptions ?req)))) (Finite 100))) \<longrightarrow>
         (\<exists>params. gateway_calls ?w ?req = [(secretKey entry, params)])"
    by simp
  with h4 have c2: "\<exists>params. gateway_calls ?w ?req = [(None, params)]"
    by (simp add: l)
  from forbidden_only_without_credentials [OF h1, of ?v "''cred''" no_entries] h2 h3' h5 np
  have "case live no_entries of
       None \<Rightarrow> handler ?v ?req = (Inl TypeError, [])
     | Some entry \<Rightarrow>
         \<not> isNaN (Math_round (js_mul (Number (parseVariables ?v (variables ?req)
                          (PaymentInputOptions.amount (inputOptions ?req)))) (Finite 100))) \<longrightarrow>
         (\<exists>params. gateway_calls ?v ?req = [(secretKey entry, params)])"
    by simp
  then have c3: "handler ?v ?req = (Inl TypeError, [])"
    by (simp add: l')
  from h1 h2 f h3 h3' h4 c1 c2 c3 show ?thesis
    by (intro conjI)
qed

text \<open>
  C6 as stated fails: with a credential set whose live entry holds no secret key the
  request is not answered with HTTP 403; the handler calls the gateway with an absent key
  and answers with what the gateway returns. With a set that has no entry at all it is
  not answered with HTTP 403 either: the handler throws.
\<close>

theorem no_secret_key_reaches_the_gateway:
  "Option.bind (live no_secret_key) secretKey = None
   \<and> test no_secret_key = None
   \<and> getStripeInfo (example_world (Inr no_secret_key) accepting) ''cred'' = Inr (Some no_secret_key)
   \<and> handler (example_world (Inr no_secret_key) accepting)
        (example_request (Some ''cred'') False ''10'' ''USD'' None) =
      (Inr (Sent (JNum (Finite 200))
         (JObj [(''clientSecret'', JStr ''pi_secret''), (''publicKey'', JStr ''pk_live''),
                (''amountLabel'', JStr ''10$'')])),
       [(None,
         \<lparr>amount = Finite 1000, currency = ''USD'', receipt_email = None,
          automatic_payment_methods_enabled = True\<rparr>)])
   \<and> served_status (outcome (example_world (Inr no_secret_key) accepting)
        (example_request (Some ''cred'') False ''10'' ''USD'' None)) \<noteq> JNum (Finite 403)
   \<and> live no_entries = None \<and> test no_entries = None
   \<and> getStripeInfo (example_world (Inr no_entries) accepting) ''cred'' = Inr (Some no_entries)
   \<and> handler (example_world (Inr no_entries) accepting)
        (example_request (Some ''cred'') False ''10'' ''USD'' None) = (Inl TypeError, [])
   \<and> served_status (outcome (example_world (Inr no_entries) accepting)
        (example_request (Some ''cred'') False ''10'' ''USD'' None)) \<noteq> JNum (Finite 403)"
  by (simp add: run_no_secret_key run_no_entries resolved_example served_status_def)
     (simp add: no_secret_key_def no_entries_def)

text \<open>
  C10, as amended. For an error object thrown by the gateway call, the branch taken
  depends only on whether the object has a property named \<open>raw\<close>. Without one the
  handler answers HTTP 500 with the body \<open>{error: e}\<close>. With one, whatever its origin,
  and provided its value is neither \<open>undefined\<close> nor \<open>null\<close>, the handler answers
  with the status \<open>raw.statusCode\<close> and the name built from \<open>raw.type\<close> and
  \<open>raw.param\<close>; when the value is \<open>undefined\<close> or \<open>null\<close>, reading
  \<open>raw.statusCode\<close> throws a \<open>TypeError\<close>, which leaves the handler.
\<close>

theorem classification_by_raw_key:
  assumes "(key, params) \<in> set (gateway_calls w req)"
      and "paymentIntents_create w key params = Inl (JObj props)"
  shows "(''raw'' \<notin> set (map fst props) \<longrightarrow>
            outcome w req = Inr (Sent (JNum (Finite 500)) (JObj [(''error'', JObj props)])))
       \<and> (''raw'' \<in> set (map fst props)
            \<and> property (JObj props) ''raw'' \<noteq> JUndefined \<and> property (JObj props) ''raw'' \<noteq> JNull \<longrightarrow>
            outcome w req =
              Inr (Sent (property (property (JObj props) ''raw'') ''statusCode'')
                (JObj [(''error'',
                   JObj [(''name'',
                            JStr (to_string (property (property (JObj props) ''raw'') ''type'') @ '' ''
                                  @ to_string (property (property (JObj props) ''raw'') ''param''))),
                         (''message'', property (property (JObj props) ''raw'') ''message'')])])))
       \<and> (''raw'' \<in> set (map fst props)
            \<and> (property (JObj props) ''raw'' = JUndefined \<or> property (JObj props) ''raw'' = JNull) \<longrightarrow>
            outcome w req = Inl TypeError)"
proof -
  from call_failure [OF assms(1,2)]
  have "outcome w req = on_gateway_error (JObj props)" .
  then show ?thesis
    by (simp add: on_gateway_error_def get_property_def)
qed

theorem classification_by_raw_key_example:
  "outcome (example_world (Inr both_keys) (throwing card_declined))
      (example_request (Some ''cred'') False ''10'' ''USD'' None) =
     Inr (Sent (JNum (Finite 402))
       (JObj [(''error'',
          JObj [(''name'', JStr ''card_error cvc''), (''message'', JUndefined)])]))
   \<and> outcome (example_world (Inr both_keys) (throwing connection_lost))
      (example_request (Some ''cred'') False ''10'' ''USD'' None) =
     Inr (Sent (JNum (Finite 500)) (JObj [(''error'', connection_lost)]))
   \<and> outcome (example_world (Inr both_keys) (throwing null_raw))
      (example_request (Some ''cred'') False ''10'' ''USD'' None) = Inl TypeError"
proof -
  let ?req = "example_request (Some ''cred'') False ''10'' ''USD'' None"
  let ?params = "\<lparr>amount = Finite 1000, currency = ''USD'', receipt_email = None,
         automatic_payment_methods_enabled = True\<rparr>"
  let ?raw = "JObj [(''statusCode'', JNum (Finite 402)), (''type'', JStr ''card_error''),
               (''param'', JStr ''cvc'')]"
  have call: "(Some ''sk_live'', ?params)
                \<in> set (gateway_calls (example_world (Inr both_keys) (throwing err)) ?req)" for err
    by (simp add: run_throwing)
  have thrown: "paymentIntents_create (example_world (Inr both_keys) (throwing (JObj props)))
                  (Some ''sk_live'') ?params = Inl (JObj props)" for props
    by (simp add: example_world_def throwing_def)
  from classification_by_raw_key [OF call thrown, of "[(''raw'', ?raw)]"]
  have "outcome (example_world (Inr both_keys) (throwing (JObj [(''raw'', ?raw)]))) ?req =
     Inr (Sent (JNum (Finite 402))
       (JObj [(''error'',
          JObj [(''name'', JStr ''card_error cvc''), (''message'', JUndefined)])]))"
    by simp
  then have c1: "outcome (example_world (Inr both_keys) (throwing card_declined)) ?req =
     Inr (Sent (JNum (Finite 402))
       (JObj [(''error'',
          JObj [(''name'', JStr ''card_error cvc''), (''message'', JUndefined)])]))"
    by (simp add: card_declined_def)
  from classification_by_raw_key [OF call thrown, of "[(''message'', JStr ''connection lost'')]"]
  have "outcome (example_world (Inr both_keys)
            (throwing (JObj [(''message'', JStr ''connection lost'')]))) ?req =
     Inr (Sent (JNum (Finite 500)) (JObj [(''error'', JObj [(''message'', JStr ''connection lost'')])]))"
    by simp
  then have c2: "outcome (example_world (Inr both_keys) (throwing connection_lost)) ?req =
     Inr (Sent (JNum (Finite 500)) (JObj [(''error'', connection_lost)]))"
    by (simp add: connection_lost_def)
  from classification_by_raw_key [OF call thrown, of "[(''raw'', JNull)]"]
  have "outcome (example_world (Inr both_keys) (throwing (JObj [(''raw'', JNull)]))) ?req
          = Inl TypeError"
    by simp
  then have c3: "outcome (example_world (Inr both_keys) (throwing null_raw)) ?req = Inl TypeError"
    by (simp add: null_raw_def)
  from c1 c2 c3 show ?thesis
    by (intro conjI)
qed

text \<open>
  C10 as stated fails: an error object whose \<open>raw\<close> property is \<open>null\<close> has the
  key, and is not passed through with a status: the handler throws.
\<close>

theorem null_raw_is_not_passed_through:
  "has_property ''raw'' null_raw = Inr True
   \<and> paymentIntents_create (example_world (Inr both_keys) (throwing null_raw))
        (Some ''sk_live'')
        \<lparr>amount = Finite 1000, currency = ''USD'', receipt_email = None,
         automatic_payment_methods_enabled = True\<rparr> = Inl null_raw
   \<and> handler (example_world (Inr both_keys) (throwing null_raw))
        (example_request (Some ''cred'') False ''10'' ''USD'' None) =
      (Inl TypeError,
       [(Some ''sk_live'',
         \<lparr>amount = Finite 1000, currency = ''USD'', receipt_email = None,
          automatic_payment_methods_enabled = True\<rparr>)])"
  by (simp add: run_throwing null_raw_response)
     (simp add: null_raw_def example_world_def throwing_def)

end
